theory Spec2Isabelle
  imports Complex_Main
begin

section \<open>Python values used by the invoice writer\<close>

text \<open>
  The program computes with Python floats. A float is modelled by the rational number it
  denotes, and \<open>+\<close>, \<open>*\<close> and \<open>/\<close> by exact arithmetic, which leaves the rounding of each
  float operation out. Floor division and remainder by the positive constants 3600 and
  60 are exact on the floats a timedelta gives, so nothing is left out there; and the
  float that \<open>total_seconds()\<close> returns has the same whole minutes as the exact duration
  as long as the duration is below \<open>2^33\<close> seconds (about 270 years).
\<close>

datatype error = ValueError string | KeyError string | ValidationError string

definition then_do :: "error + 'a \<Rightarrow> ('a \<Rightarrow> error + 'b) \<Rightarrow> error + 'b" where
  "then_do r f = (case r of Inl e \<Rightarrow> Inl e | Inr x \<Rightarrow> f x)"

subsection \<open>Decimal text of numbers\<close>










subsection \<open>Dates and durations\<close>

record date =
  year :: nat
  month :: nat
  day :: nat


record timedelta =
  days :: int
  seconds :: int
  microseconds :: int



section \<open>Data model\<close>

datatype FontStyle = BASE | BOLD | ITALIC | BOLD_ITALIC

fun FontStyle_value :: "FontStyle \<Rightarrow> string" where
  "FontStyle_value BASE = ''base''"
| "FontStyle_value BOLD = ''bold''"
| "FontStyle_value ITALIC = ''italic''"
| "FontStyle_value BOLD_ITALIC = ''bold_italic''"

datatype Alignment = LEFT | RIGHT | CENTER | JUSTIFY

fun Alignment_value :: "Alignment \<Rightarrow> string" where
  "Alignment_value LEFT = ''left''"
| "Alignment_value RIGHT = ''right''"
| "Alignment_value CENTER = ''center''"
| "Alignment_value JUSTIFY = ''justify''"



record Client =
  name :: string
  gender :: string
  city :: string
  zip_code :: string
  adress :: string


record LawFirm =
  principal_lawyer :: string
  collaborators :: "string list"
  firm_zip_code :: string
  firm_city :: string
  firm_adress :: string
  phone :: string
  toque_adress :: string
  mail :: string
  website :: string
  vat_number :: string
  siret_number :: string

record Time =
  description :: string
  duration :: timedelta
  entry_date :: date


record Fees =
  fee_times :: "Time list"
  price :: rat


section \<open>Document objects of the rendering library\<close>

definition TA_LEFT :: nat where "TA_LEFT = 0"
definition TA_CENTER :: nat where "TA_CENTER = 1"
definition TA_RIGHT :: nat where "TA_RIGHT = 2"
definition TA_JUSTIFY :: nat where "TA_JUSTIFY = 4"

definition inch :: rat where "inch = 72"
definition letter :: "rat \<times> rat" where "letter = (612, 792)"

record ParagraphStyle =
  style_name :: string
  parent :: string
  alignment :: nat
  fontName :: string
  fontSize :: rat

definition ParagraphStyle_init :: "string \<Rightarrow> ParagraphStyle \<Rightarrow> ParagraphStyle" where
  "ParagraphStyle_init n p = p\<lparr>style_name := n, parent := style_name p\<rparr>"

definition getSampleStyleSheet :: "string \<rightharpoonup> ParagraphStyle" where
  "getSampleStyleSheet =
     [''Normal'' \<mapsto> \<lparr>style_name = ''Normal'', parent = [], alignment = TA_LEFT,
                      fontName = ''Helvetica'', fontSize = 10\<rparr>]"

datatype Paragraph = Paragraph (para_text: string) (para_style: ParagraphStyle)

datatype colour = black | lightgrey

type_synonym cell = "int \<times> int"

datatype TableCmd =
    BOX cell cell rat colour
  | VALIGN cell cell string
  | TOPPADDING cell cell rat
  | BOTTOMPADDING cell cell rat
  | BACKGROUND cell cell colour

datatype Flowable =
    Para Paragraph
  | Spacer rat rat
  | Table (data: "Paragraph list list") (colWidths: "rat list")
          (rowHeights: "rat list option") (tstyle: "TableCmd list")

record SimpleDocTemplate =
  filename :: string
  pagesize :: "rat \<times> rat"
  leftMargin :: rat
  rightMargin :: rat
  topMargin :: rat
  bottomMargin :: rat


definition SimpleDocTemplate_init :: "string \<Rightarrow> rat \<times> rat \<Rightarrow> SimpleDocTemplate" where
  "SimpleDocTemplate_init path ps =
     \<lparr>filename = path, pagesize = ps, leftMargin = inch, rightMargin = inch,
      topMargin = inch, bottomMargin = inch\<rparr>"



text \<open>The fonts registered when the module is loaded: name and file.\<close>

definition registered_fonts :: "(string \<times> string) list" where
  "registered_fonts =
     [(''Yrsa'', ''fonts/yrsa/Yrsa-Light.ttf''),
      (''YrsaBold'', ''fonts/yrsa/Yrsa-SemiBold.ttf''),
      (''YrsaItalic'', ''fonts/yrsa/Yrsa-LightItalic.ttf''),
      (''YrsaBoldItalic'', ''fonts/yrsa/Yrsa-SemiBoldItalic.ttf'')]"

section \<open>The invoice writer\<close>

record PDFInvoiceWriter =
  output_path :: string
  client :: Client
  lawfirm :: LawFirm
  fees :: Fees
  doc :: SimpleDocTemplate
  styles :: "string \<rightharpoonup> ParagraphStyle"
  contents :: "Flowable list"

definition font_base :: string where "font_base = ''Yrsa''"
definition font_bold :: string where "font_bold = ''YrsaBold''"
definition font_italic :: string where "font_italic = ''YrsaItalic''"
definition font_bold_italic :: string where "font_bold_italic = ''YrsaBoldItalic''"

definition PDFInvoiceWriter_init ::
  "string \<Rightarrow> Client \<Rightarrow> LawFirm \<Rightarrow> Fees \<Rightarrow> PDFInvoiceWriter" where
  "PDFInvoiceWriter_init path c l f =
     \<lparr>output_path = path, client = c, lawfirm = l, fees = f,
      doc = SimpleDocTemplate_init path letter, styles = getSampleStyleSheet,
      contents = []\<rparr>"

text \<open>
  The argument of \<open>font_from_style\<close> is annotated \<open>FontStyle\<close>, which Python does not
  enforce: \<open>NonMember r\<close> is any other object, \<open>r\<close> its text in the error message.
\<close>

datatype style_arg = Member FontStyle | NonMember string

fun font_from_style :: "style_arg \<Rightarrow> error + string" where
  "font_from_style (Member BASE) = Inr font_base"
| "font_from_style (Member BOLD) = Inr font_bold"
| "font_from_style (Member ITALIC) = Inr font_italic"
| "font_from_style (Member BOLD_ITALIC) = Inr font_bold_italic"
| "font_from_style (NonMember r) = Inl (ValueError (''Invalid font style: '' @ r))"

text \<open>
  \<open>style(alignment, font_style, font_size)\<close>; the defaults \<open>LEFT\<close>, \<open>BASE\<close> and 12 are
  written out at each call.
\<close>

definition style ::
  "PDFInvoiceWriter \<Rightarrow> Alignment \<Rightarrow> FontStyle \<Rightarrow> rat \<Rightarrow> error + ParagraphStyle" where
  "style self al font_style font_size =
     (let nm = Alignment_value al @ ''_'' @ FontStyle_value font_style
      in case styles self ''Normal'' of
           None \<Rightarrow> Inl (KeyError ''Normal'')
         | Some normal \<Rightarrow>
             (let st = ParagraphStyle_init nm normal;
                  st = (if al = LEFT then st\<lparr>alignment := TA_LEFT\<rparr>
                        else if al = RIGHT then st\<lparr>alignment := TA_RIGHT\<rparr>
                        else if al = CENTER then st\<lparr>alignment := TA_CENTER\<rparr>
                        else if al = JUSTIFY then st\<lparr>alignment := TA_JUSTIFY\<rparr>
                        else st)
              in then_do (font_from_style (Member font_style))
                   (\<lambda>fn. Inr (st\<lparr>fontName := fn, fontSize := font_size\<rparr>))))"

definition append_content :: "Flowable \<Rightarrow> PDFInvoiceWriter \<Rightarrow> PDFInvoiceWriter" where
  "append_content x self = self\<lparr>contents := contents self @ [x]\<rparr>"

text \<open>\<open>spacer(height, base_height=12)\<close>.\<close>

definition spacer :: "rat \<Rightarrow> rat \<Rightarrow> PDFInvoiceWriter \<Rightarrow> PDFInvoiceWriter" where
  "spacer height base_height self = append_content (Spacer 1 (base_height * height)) self"







subsection \<open>Fees\<close>










subsection \<open>Footer\<close>



subsection \<open>Build\<close>



section \<open>The document as a value\<close>

text \<open>
  The blocks each method appends, written as plain lists. They are used to state what the
  methods above produce; \<open>p\<close> is the stylesheet's \<open>Normal\<close> style.
\<close>

fun TA_of :: "Alignment \<Rightarrow> nat" where
  "TA_of LEFT = TA_LEFT"
| "TA_of RIGHT = TA_RIGHT"
| "TA_of CENTER = TA_CENTER"
| "TA_of JUSTIFY = TA_JUSTIFY"

fun font_of :: "FontStyle \<Rightarrow> string" where
  "font_of BASE = ''Yrsa''"
| "font_of BOLD = ''YrsaBold''"
| "font_of ITALIC = ''YrsaItalic''"
| "font_of BOLD_ITALIC = ''YrsaBoldItalic''"

definition resolved_style ::
  "ParagraphStyle \<Rightarrow> Alignment \<Rightarrow> FontStyle \<Rightarrow> rat \<Rightarrow> ParagraphStyle" where
  "resolved_style p al fs sz =
     p\<lparr>style_name := Alignment_value al @ ''_'' @ FontStyle_value fs,
       parent := style_name p, alignment := TA_of al, fontName := font_of fs,
       fontSize := sz\<rparr>"


definition collaborators_heading :: "ParagraphStyle \<Rightarrow> Flowable" where
  "collaborators_heading p =
     Para (Paragraph ''En collaboration avec :'' (resolved_style p LEFT ITALIC 12))"

definition collaborator_line :: "ParagraphStyle \<Rightarrow> string \<Rightarrow> Flowable" where
  "collaborator_line p nm = Para (Paragraph nm (resolved_style p LEFT BASE 12))"
























section \<open>The sample run of the module\<close>

definition sample_client :: Client where
  "sample_client =
     \<lparr>name = ''John DOE'', gender = ''M'', city = ''Paris'', zip_code = ''75000'',
      adress = ''123 Rue de la Paix''\<rparr>"

definition sample_lawfirm :: LawFirm where
  "sample_lawfirm =
     \<lparr>principal_lawyer = ''Jean-Pierre Machin'',
      collaborators = [''Gerard LOULOU'', ''Francesca MARTINI''],
      firm_zip_code = ''75000'', firm_city = ''Paris'', firm_adress = ''123 Rue de la Paix'',
      phone = ''01.23.45.67.89'', toque_adress = ''Somewhere AX8786'',
      mail = ''cabinet.avocate@gmail.com'', website = ''cabinet-avocat.fr'',
      vat_number = ''FR1234567890'', siret_number = ''1234567890''\<rparr>"

text \<open>\<open>timedelta(hours=h, minutes=m)\<close>.\<close>

definition timedelta_hm :: "int \<Rightarrow> int \<Rightarrow> timedelta" where
  "timedelta_hm h m = \<lparr>days = 0, seconds = h * 3600 + m * 60, microseconds = 0\<rparr>"

definition sample_fees :: Fees where
  "sample_fees =
     \<lparr>fee_times =
        [\<lparr>description = ''Courriel Mme : Projet LO'', duration = timedelta_hm 0 11,
          entry_date = \<lparr>year = 2025, month = 3, day = 24\<rparr>\<rparr>,
         \<lparr>description = ''Courriel Mme'', duration = timedelta_hm 0 6,
          entry_date = \<lparr>year = 2025, month = 3, day = 25\<rparr>\<rparr>,
         \<lparr>description = ''Renvoi audience'', duration = timedelta_hm 1 0,
          entry_date = \<lparr>year = 2025, month = 4, day = 2\<rparr>\<rparr>,
         \<lparr>description = ''An element done in 3 hours and 12 minutes'',
          duration = timedelta_hm 3 12,
          entry_date = \<lparr>year = 2025, month = 5, day = 3\<rparr>\<rparr>],
      price = 300\<rparr>"

definition sample_writer :: PDFInvoiceWriter where
  "sample_writer = PDFInvoiceWriter_init ''invoice.pdf'' sample_client sample_lawfirm sample_fees"




definition Normal_style :: ParagraphStyle where
  "Normal_style = the (getSampleStyleSheet ''Normal'')"



section \<open>What each method appends\<close>

lemma then_do_Inr: "then_do (Inr x) f = f x"
  by (simp add: then_do_def)

lemma font_from_style_Member: "font_from_style (Member fs) = Inr (font_of fs)"
  by (cases fs) (simp_all add: font_base_def font_bold_def font_italic_def font_bold_italic_def)

lemma style_Normal:
  "styles self ''Normal'' = Some p \<Longrightarrow> style self al fs sz = Inr (resolved_style p al fs sz)"
  by (cases al)
     (simp_all add: style_def resolved_style_def ParagraphStyle_init_def
        font_from_style_Member then_do_Inr)


lemma styles_spacer: "styles (spacer h b self) = styles self"
  by (simp add: spacer_def append_content_def)

















section \<open>Number formatting and the duration split\<close>







lemma sample_writer_Normal: "styles sample_writer ''Normal'' = Some Normal_style"
  by (simp add: sample_writer_def PDFInvoiceWriter_init_def Normal_style_def
      getSampleStyleSheet_def)



section \<open>Verified claims\<close>



























text \<open>
  C7. Font selection returns, for each of the four emphasis values, the name of the
  corresponding registered font (light, semi-bold, light italic, semi-bold italic), and
  fails with an error, here Python's \<open>ValueError\<close>, for every other value: it never falls
  back to a default font.
\<close>

theorem font_selection:
  "font_from_style (Member BASE) = Inr ''Yrsa'' \<and>
   font_from_style (Member BOLD) = Inr ''YrsaBold'' \<and>
   font_from_style (Member ITALIC) = Inr ''YrsaItalic'' \<and>
   font_from_style (Member BOLD_ITALIC) = Inr ''YrsaBoldItalic'' \<and>
   map_of registered_fonts ''Yrsa'' = Some ''fonts/yrsa/Yrsa-Light.ttf'' \<and>
   map_of registered_fonts ''YrsaBold'' = Some ''fonts/yrsa/Yrsa-SemiBold.ttf'' \<and>
   map_of registered_fonts ''YrsaItalic'' = Some ''fonts/yrsa/Yrsa-LightItalic.ttf'' \<and>
   map_of registered_fonts ''YrsaBoldItalic'' = Some ''fonts/yrsa/Yrsa-SemiBoldItalic.ttf'' \<and>
   (\<exists>f file. font_from_style (Member s) = Inr f \<and> map_of registered_fonts f = Some file) \<and>
   font_from_style (NonMember r) = Inl (ValueError (''Invalid font style: '' @ r))"
  by (cases s)
     (simp_all add: font_base_def font_bold_def font_italic_def font_bold_italic_def
        registered_fonts_def)

text \<open>
  C9. Style resolution is deterministic and free of side effects: \<open>style\<close> assigns to no
  attribute of the writer, so its model returns no new state, and for every
  (alignment, emphasis, size) two calls, made in any two states of the writer, yield
  descriptors with equal \<open>fontName\<close>, \<open>fontSize\<close>, \<open>alignment\<close> and name, which depend on the
  three arguments only.
\<close>

theorem style_resolution_pure:
  assumes "styles w1 ''Normal'' = Some p1" and "styles w2 ''Normal'' = Some p2"
  shows "\<exists>d1 d2.
     style w1 al fs sz = Inr d1 \<and> style w2 al fs sz = Inr d2 \<and>
     fontName d1 = fontName d2 \<and> fontSize d1 = fontSize d2 \<and>
     alignment d1 = alignment d2 \<and> style_name d1 = style_name d2 \<and>
     fontName d1 = font_of fs \<and> fontSize d1 = sz \<and> alignment d1 = TA_of al"
  by (simp add: style_Normal [OF assms(1)] style_Normal [OF assms(2)] resolved_style_def)

theorem style_resolution_pure_witness:
  "styles sample_writer ''Normal'' = Some Normal_style \<and>
   styles (spacer 1 12 sample_writer) ''Normal'' = Some Normal_style \<and>
   contents (spacer 1 12 sample_writer) \<noteq> contents sample_writer \<and>
   (\<exists>d1 d2.
     style sample_writer RIGHT BOLD 12 = Inr d1 \<and>
     style (spacer 1 12 sample_writer) RIGHT BOLD 12 = Inr d2 \<and>
     fontName d1 = fontName d2 \<and> fontSize d1 = fontSize d2 \<and>
     alignment d1 = alignment d2 \<and> style_name d1 = style_name d2 \<and>
     fontName d1 = ''YrsaBold'' \<and> fontSize d1 = 12 \<and> alignment d1 = 2)"
proof -
  have s2: "styles (spacer 1 12 sample_writer) ''Normal'' = Some Normal_style"
    by (simp add: styles_spacer sample_writer_Normal)
  from style_resolution_pure [OF sample_writer_Normal s2, of RIGHT BOLD 12]
  show ?thesis
    by (simp add: sample_writer_Normal s2 TA_RIGHT_def)
       (simp add: spacer_def append_content_def)
qed

section \<open>The built document\<close>



lemma resolved_style_eq_iff:
  "resolved_style p al fs sz = resolved_style p al' fs' sz' \<longleftrightarrow>
     al = al' \<and> fs = fs' \<and> sz = sz'"
proof
  assume st: "resolved_style p al fs sz = resolved_style p al' fs' sz'"
  from arg_cong [OF st, of alignment] have "al = al'"
    by (cases al; cases al')
       (simp_all add: resolved_style_def TA_LEFT_def TA_RIGHT_def TA_CENTER_def TA_JUSTIFY_def)
  moreover from arg_cong [OF st, of fontName] have "fs = fs'"
    by (cases fs; cases fs') (simp_all add: resolved_style_def)
  moreover from arg_cong [OF st, of fontSize] have "sz = sz'"
    by (simp add: resolved_style_def)
  ultimately show "al = al' \<and> fs = fs' \<and> sz = sz'" by simp
qed simp

lemma heading_not_line: "collaborators_heading p \<noteq> collaborator_line p nm"
  by (simp add: collaborators_heading_def collaborator_line_def resolved_style_eq_iff)























end
